theory Spec2Isabelle
  imports Main
begin

section \<open>JavaScript values and errors\<close>

text \<open>
  The consumer, the event controller and the producer work on values produced by
  \<^verbatim>\<open>JSON.parse\<close> and typed \<^verbatim>\<open>any\<close>. A parsed value is a \<open>json\<close>; the result of a
  property read is a \<open>jsval\<close>, where \<open>None\<close> is JavaScript's \<^verbatim>\<open>undefined\<close>.
  JSON numbers are integers here (no claim depends on a fraction); a string is
  represented by its UTF-8 encoding.
\<close>

datatype json =
    JNull
  | JBool bool
  | JNum int
  | JStr string
  | JArr "json list"
  | JObj "(string \<times> json) list"

type_synonym jsval = "json option"

text \<open>
  Every exception the modelled code can see. \<open>MongoServerError c m\<close> carries the numeric
  \<^verbatim>\<open>error.code\<close> that \<^verbatim>\<open>handleUserCreated\<close> inspects (11000 is the duplicate-key code).
\<close>

datatype error =
    TypeError string
  | SyntaxError string
  | ValidationError string
  | MongoServerError nat string
  | Error string

fun message :: "error \<Rightarrow> string" where
  "message (TypeError m) = m"
| "message (SyntaxError m) = m"
| "message (ValidationError m) = m"
| "message (MongoServerError c m) = m"
| "message (Error m) = m"

fun code :: "error \<Rightarrow> nat option" where
  "code (MongoServerError c m) = Some c"
| "code _ = None"

text \<open>
  \<^verbatim>\<open>v.k\<close> for the property names the code reads (\<^verbatim>\<open>type\<close>, \<^verbatim>\<open>userId\<close>, \<^verbatim>\<open>data\<close>,
  \<^verbatim>\<open>email\<close>, \<^verbatim>\<open>id\<close>, ...): a TypeError on \<^verbatim>\<open>undefined\<close> and \<^verbatim>\<open>null\<close>, the member of an
  object, \<^verbatim>\<open>undefined\<close> on booleans, numbers, strings and arrays (none of the names
  read is \<^verbatim>\<open>length\<close> or an index).
\<close>

fun get :: "jsval \<Rightarrow> string \<Rightarrow> error + jsval" where
  "get None k = Inl (TypeError ''Cannot read properties of undefined'')"
| "get (Some JNull) k = Inl (TypeError ''Cannot read properties of null'')"
| "get (Some (JObj kvs)) k = Inr (map_of kvs k)"
| "get (Some v) k = Inr None"

text \<open>JavaScript truthiness, as used by \<^verbatim>\<open>||\<close> and \<^verbatim>\<open>!\<close>.\<close>

fun truthy :: "jsval \<Rightarrow> bool" where
  "truthy None = False"
| "truthy (Some JNull) = False"
| "truthy (Some (JBool b)) = b"
| "truthy (Some (JNum n)) = (n \<noteq> 0)"
| "truthy (Some (JStr s)) = (s \<noteq> [])"
| "truthy (Some v) = True"

text \<open>\<^verbatim>\<open>a || b\<close> on a possibly undefined left operand and a defined right one.\<close>

definition orElse :: "jsval \<Rightarrow> json \<Rightarrow> json" where
  "orElse a b = (case a of Some v \<Rightarrow> (if truthy a then v else b) | None \<Rightarrow> b)"

subsection \<open>Strings: trim, length, decimal numerals, parseInt\<close>

text \<open>
  A JavaScript string is represented by its UTF-8 encoding. The white space that
  \<^verbatim>\<open>String.prototype.trim\<close> and \<^verbatim>\<open>parseInt\<close> strip is the language's WhiteSpace and
  LineTerminator: tab, line feed, vertical tab, form feed, carriage return, space,
  U+00A0, U+1680, U+2000 to U+200A, U+2028, U+2029, U+202F, U+205F, U+3000 and U+FEFF,
  listed here by their encodings.
\<close>

definition whiteSpace :: "string list" where
  "whiteSpace =
     [[CHR 0x09], [CHR 0x0A], [CHR 0x0B], [CHR 0x0C], [CHR 0x0D], [CHR 0x20],
      [CHR 0xC2, CHR 0xA0], [CHR 0xE1, CHR 0x9A, CHR 0x80],
      [CHR 0xE2, CHR 0x80, CHR 0x80], [CHR 0xE2, CHR 0x80, CHR 0x81], [CHR 0xE2, CHR 0x80, CHR 0x82],
      [CHR 0xE2, CHR 0x80, CHR 0x83], [CHR 0xE2, CHR 0x80, CHR 0x84], [CHR 0xE2, CHR 0x80, CHR 0x85],
      [CHR 0xE2, CHR 0x80, CHR 0x86], [CHR 0xE2, CHR 0x80, CHR 0x87], [CHR 0xE2, CHR 0x80, CHR 0x88],
      [CHR 0xE2, CHR 0x80, CHR 0x89], [CHR 0xE2, CHR 0x80, CHR 0x8A],
      [CHR 0xE2, CHR 0x80, CHR 0xA8], [CHR 0xE2, CHR 0x80, CHR 0xA9], [CHR 0xE2, CHR 0x80, CHR 0xAF],
      [CHR 0xE2, CHR 0x81, CHR 0x9F], [CHR 0xE3, CHR 0x80, CHR 0x80], [CHR 0xEF, CHR 0xBB, CHR 0xBF]]"

text \<open>Dropping, from the front of \<open>s\<close>, every leading occurrence of one of the words \<open>ws\<close>.\<close>

function dropAny :: "string list \<Rightarrow> string \<Rightarrow> string" where
  "dropAny ws s =
     (case List.find (\<lambda>w. w \<noteq> [] \<and> take (length w) s = w) ws of
        None \<Rightarrow> s
      | Some w \<Rightarrow> dropAny ws (drop (length w) s))"
  by pat_completeness auto
termination
proof (relation "measure (\<lambda>(ws, s). length s)")
  show "wf (measure (\<lambda>(ws, s). length s))" by simp
next
  fix ws :: "string list" and s w :: string
  assume "List.find (\<lambda>w. w \<noteq> [] \<and> take (length w) s = w) ws = Some w"
  then have w: "w \<noteq> []" and t: "take (length w) s = w"
    by (auto simp: find_Some_iff)
  from t have "length w \<le> length s"
    by (metis length_take min.cobounded1)
  with w show "((ws, drop (length w) s), (ws, s)) \<in> measure (\<lambda>(ws, s). length s)"
    by (cases w) auto
qed

declare dropAny.simps [simp del]

definition trimStart :: "string \<Rightarrow> string" where
  "trimStart s = dropAny whiteSpace s"

definition trimEnd :: "string \<Rightarrow> string" where
  "trimEnd s = rev (dropAny (map rev whiteSpace) (rev s))"

definition trim :: "string \<Rightarrow> string" where
  "trim s = trimEnd (trimStart s)"

text \<open>
  \<^verbatim>\<open>s.length\<close>, the number of UTF-16 code units: one for every encoded character (every
  byte that is no continuation byte) and one more for every character outside the basic
  plane (every lead byte of a four-byte sequence).
\<close>

definition jsLength :: "string \<Rightarrow> nat" where
  "jsLength s =
     length (filter (\<lambda>c. \<not> (128 \<le> (of_char c :: nat) \<and> (of_char c :: nat) < 192)) s) +
     length (filter (\<lambda>c. 240 \<le> (of_char c :: nat)) s)"

definition isAscii :: "string \<Rightarrow> bool" where
  "isAscii s = list_all (\<lambda>c. (of_char c :: nat) < 128) s"

definition digitChar :: "nat \<Rightarrow> char" where
  "digitChar d = ''0123456789'' ! (d mod 10)"

function showNat :: "nat \<Rightarrow> string" where
  "showNat n = (if n < 10 then [digitChar n] else showNat (n div 10) @ [digitChar n])"
  by pat_completeness auto
termination
  by (relation "measure id") auto

declare showNat.simps [simp del]

text \<open>
  A JavaScript number, as far as \<^verbatim>\<open>parseInt\<close> produces one: \<^verbatim>\<open>NaN\<close>, an integer-valued
  double, or an infinity.
\<close>

datatype number = NaN | Num int | Infinity | MinusInfinity

text \<open>
  The double nearest to a natural number, ties to the even significand: \<open>excess n 0\<close> is
  the number of low bits that do not fit into the 53 bits of the significand. \<open>None\<close> is
  the overflow to infinity.
\<close>

function excess :: "nat \<Rightarrow> nat \<Rightarrow> nat" where
  "excess n e = (if n div 2 ^ e < 2 ^ 53 then e else excess n (Suc e))"
  by pat_completeness auto
termination
proof (relation "measure (\<lambda>(n, e). n div 2 ^ e)")
  show "wf (measure (\<lambda>(n, e). n div 2 ^ e))" by simp
next
  fix n e :: nat
  assume "\<not> n div 2 ^ e < 2 ^ 53"
  then have "0 < n div 2 ^ e" by (simp add: not_less)
  moreover have "n div 2 ^ Suc e = (n div 2 ^ e) div 2"
    by (simp only: power_Suc2 div_mult2_eq)
  ultimately show "((n, Suc e), (n, e)) \<in> measure (\<lambda>(n, e). n div 2 ^ e)"
    by simp
qed

declare excess.simps [simp del]

definition toDouble :: "nat \<Rightarrow> nat option" where
  "toDouble n =
     (let e = excess n 0; q = n div 2 ^ e; r = n mod 2 ^ e;
          m = (if 2 ^ e < 2 * r \<or> (2 * r = 2 ^ e \<and> odd q) then q + 1 else q)
      in if m * 2 ^ e < 2 ^ 1024 then Some (m * 2 ^ e) else None)"

definition signedNumber :: "bool \<Rightarrow> nat option \<Rightarrow> number" where
  "signedNumber negative digits =
     (case digits of
        None \<Rightarrow> NaN
      | Some n \<Rightarrow>
          (case toDouble n of
             None \<Rightarrow> (if negative then MinusInfinity else Infinity)
           | Some m \<Rightarrow> Num (if negative then - int m else int m)))"

text \<open>
  \<^verbatim>\<open>parseInt(s)\<close> with no radix: leading white space is skipped, then an optional sign,
  then either \<^verbatim>\<open>0x\<close>/\<^verbatim>\<open>0X\<close> and hexadecimal digits or decimal digits, up to the first
  character that is no digit; the value of the digits is rounded to the nearest double.
\<close>

definition digitVal :: "char \<Rightarrow> nat option" where
  "digitVal c = map_of (zip ''0123456789abcdefABCDEF''
                            [0, 1, 2, 3, 4, 5, 6, 7, 8, 9, 10, 11, 12, 13, 14, 15, 10, 11, 12, 13, 14, 15]) c"

definition isDigitOf :: "nat \<Rightarrow> char \<Rightarrow> bool" where
  "isDigitOf radix c = (case digitVal c of Some d \<Rightarrow> d < radix | None \<Rightarrow> False)"

definition digitsValue :: "nat \<Rightarrow> string \<Rightarrow> nat option" where
  "digitsValue radix s =
     (let ds = takeWhile (isDigitOf radix) s
      in if ds = [] then None
         else Some (foldl (\<lambda>acc c. acc * radix + (case digitVal c of Some d \<Rightarrow> d | None \<Rightarrow> 0)) 0 ds))"

definition unsignedValue :: "string \<Rightarrow> nat option" where
  "unsignedValue s =
     (if take 2 s = ''0x'' \<or> take 2 s = ''0X'' then digitsValue 16 (drop 2 s)
      else digitsValue 10 s)"

definition parseInt :: "string \<Rightarrow> number" where
  "parseInt s =
     (case trimStart s of
        [] \<Rightarrow> NaN
      | c # cs \<Rightarrow>
          if c = CHR ''-'' then signedNumber True (unsignedValue cs)
          else if c = CHR ''+'' then signedNumber False (unsignedValue cs)
          else signedNumber False (unsignedValue (c # cs)))"

subsection \<open>Regular expressions of the schema's \<^verbatim>\<open>match\<close> validators\<close>

text \<open>
  A regular expression with \<^verbatim>\<open>\w\<close> (the ASCII letters, digits and underscore) as a
  primitive, matched against the whole string (the pattern in the schema is anchored by
  \<^verbatim>\<open>^\<close> and \<^verbatim>\<open>$\<close>) by derivatives. The pattern names ASCII characters only, so a
  string matches exactly when its encoding does.
\<close>

datatype rx = Fail | Eps | Wd | Lit char | Alt rx rx | Seq rx rx | Star rx

definition isWord :: "char \<Rightarrow> bool" where
  "isWord c = (c \<in> set ''abcdefghijklmnopqrstuvwxyzABCDEFGHIJKLMNOPQRSTUVWXYZ0123456789_'')"

fun nullable :: "rx \<Rightarrow> bool" where
  "nullable Fail = False"
| "nullable Eps = True"
| "nullable Wd = False"
| "nullable (Lit c) = False"
| "nullable (Alt r s) = (nullable r \<or> nullable s)"
| "nullable (Seq r s) = (nullable r \<and> nullable s)"
| "nullable (Star r) = True"

fun alt :: "rx \<Rightarrow> rx \<Rightarrow> rx" where
  "alt Fail s = s"
| "alt r Fail = r"
| "alt r s = Alt r s"

fun seq :: "rx \<Rightarrow> rx \<Rightarrow> rx" where
  "seq Fail s = Fail"
| "seq r Fail = Fail"
| "seq Eps s = s"
| "seq r s = Seq r s"

fun deriv :: "char \<Rightarrow> rx \<Rightarrow> rx" where
  "deriv c Fail = Fail"
| "deriv c Eps = Fail"
| "deriv c Wd = (if isWord c then Eps else Fail)"
| "deriv c (Lit d) = (if c = d then Eps else Fail)"
| "deriv c (Alt r s) = alt (deriv c r) (deriv c s)"
| "deriv c (Seq r s) =
     (if nullable r then alt (seq (deriv c r) s) (deriv c s) else seq (deriv c r) s)"
| "deriv c (Star r) = seq (deriv c r) (Star r)"

definition regexTest :: "rx \<Rightarrow> string \<Rightarrow> bool" where
  "regexTest r s = nullable (fold deriv s r)"

definition oneOrMore :: "rx \<Rightarrow> rx" where
  "oneOrMore r = Seq r (Star r)"

definition optional :: "rx \<Rightarrow> rx" where
  "optional r = Alt r Eps"

text \<open>\<^verbatim>\<open>/^\w+([.-]?\w+)*@\w+([.-]?\w+)*(\.\w{2,3})+$/\<close>, the pattern of \<^verbatim>\<open>UserSchema.email\<close>.\<close>

definition localPart :: rx where
  "localPart = Seq (oneOrMore Wd) (Star (Seq (optional (Alt (Lit CHR ''.'') (Lit CHR ''-''))) (oneOrMore Wd)))"

definition emailPattern :: rx where
  "emailPattern =
     Seq localPart
       (Seq (Lit CHR ''@'')
          (Seq localPart
             (oneOrMore (Seq (Lit CHR ''.'') (Seq Wd (Seq Wd (optional Wd)))))))"

section \<open>The document store\<close>

subsection \<open>Schema types\<close>

text \<open>
  A stored User (\<^verbatim>\<open>UserSchema\<close>). The identifier is generated by the store (\<open>Gen\<close>) or
  given by the client in the document (\<open>Given\<close>): \<^verbatim>\<open>handleUserCreated\<close> spreads the
  message's \<^verbatim>\<open>data\<close> into the constructor, \<^verbatim>\<open>_id\<close> included. \<open>isActive = None\<close> is a
  stored \<^verbatim>\<open>null\<close>. The bookkeeping fields \<^verbatim>\<open>createdAt\<close> and \<^verbatim>\<open>updatedAt\<close> are left out.
\<close>

datatype oid = Gen nat | Given string

record user =
  uid :: oid
  email :: string
  name :: string
  age :: "int option"
  isActive :: "bool option"
  msource :: string
  tags :: "string list"

text \<open>
  A stored Event (\<^verbatim>\<open>EventSchema\<close>); the last five fields are the \<^verbatim>\<open>metadata\<close>
  sub-document, whose \<^verbatim>\<open>retryCount\<close> has the default 0.
\<close>

record event =
  eid :: nat
  etype :: string
  euserId :: "string option"
  edata :: json
  esource :: string
  etimestamp :: nat
  processed :: bool
  kafkaOffset :: "number option"
  kafkaPartition :: "int option"
  kafkaTopic :: "string option"
  retryCount :: nat
  errorMessage :: "string option"

text \<open>
  The two collections, in insertion order, and the counter behind generated identifiers.
  The store is always reachable here: what can fail is validation, a unique index, and
  the property reads of the code itself.
\<close>

record store =
  events :: "event list"
  users :: "user list"
  nextId :: nat

subsection \<open>Library functions taken as parameters\<close>

text \<open>
  What the code calls and the repository does not contain: \<^verbatim>\<open>JSON.parse\<close>, the clock,
  \<^verbatim>\<open>new Date(string)\<close> (\<open>None\<close> is an invalid date), the object-document mapper's casts
  of values that are not already of the schema type (\<open>None\<close> is a CastError), its
  \<^verbatim>\<open>User.findByIdAndUpdate\<close>, which returns the updated document if one matched, and,
  for strings with characters outside ASCII, \<^verbatim>\<open>String.prototype.toLowerCase\<close> and the
  indexed code units that a spread copies.
\<close>

record lib =
  JSON_parse :: "string \<Rightarrow> error + json"
  Date_now :: nat
  Date_parse :: "string \<Rightarrow> nat option"
  castString :: "json \<Rightarrow> string option"
  castNumber :: "json \<Rightarrow> int option"
  castBoolean :: "json \<Rightarrow> bool option"
  castObjectId :: "json \<Rightarrow> string option"
  User_findByIdAndUpdate :: "jsval \<Rightarrow> (string \<times> json) list \<Rightarrow> user list \<Rightarrow> error + (user option \<times> user list)"
  String_toLowerCase :: "string \<Rightarrow> string"
  String_spread :: "string \<Rightarrow> (string \<times> json) list"

text \<open>
  Casting a document field to a schema type: \<^verbatim>\<open>undefined\<close> and \<^verbatim>\<open>null\<close> stay absent
  (\<open>Some None\<close>), a value of the type is taken as it is, anything else goes through the
  library's cast; the outer \<open>None\<close> is a CastError.
\<close>

fun castStr :: "lib \<Rightarrow> jsval \<Rightarrow> string option option" where
  "castStr L None = Some None"
| "castStr L (Some JNull) = Some None"
| "castStr L (Some (JStr s)) = Some (Some s)"
| "castStr L (Some v) = map_option Some (castString L v)"

fun castNum :: "lib \<Rightarrow> jsval \<Rightarrow> int option option" where
  "castNum L None = Some None"
| "castNum L (Some JNull) = Some None"
| "castNum L (Some (JNum n)) = Some (Some n)"
| "castNum L (Some v) = map_option Some (castNumber L v)"

fun castBool :: "lib \<Rightarrow> jsval \<Rightarrow> bool option option" where
  "castBool L None = Some None"
| "castBool L (Some JNull) = Some None"
| "castBool L (Some (JBool b)) = Some (Some b)"
| "castBool L (Some v) = map_option Some (castBoolean L v)"

subsection \<open>Saving an Event\<close>

text \<open>The \<^verbatim>\<open>enum\<close> lists of \<^verbatim>\<open>EventSchema.type\<close> and \<^verbatim>\<open>EventSchema.source\<close>.\<close>

definition Event_types :: "string list" where
  "Event_types =
     [''user.created'', ''user.updated'', ''user.deleted'', ''user.login'', ''user.logout'',
      ''order.created'', ''order.updated'', ''order.cancelled'', ''payment.processed'',
      ''notification.sent'', ''purchase.created'', ''purchase.updated'', ''purchase.cancelled'',
      ''system.health'', ''custom'']"

definition Event_sources :: "string list" where
  "Event_sources = [''api'', ''kafka'', ''system'', ''webhook'']"

text \<open>
  The object handed to \<^verbatim>\<open>new Event({...})\<close> by the consumer. \<open>d_timestamp = None\<close> is an
  invalid \<^verbatim>\<open>Date\<close>.
\<close>

record event_doc =
  d_type :: jsval
  d_userId :: jsval
  d_data :: jsval
  d_source :: string
  d_timestamp :: "nat option"
  d_processed :: bool
  d_kafkaOffset :: number
  d_kafkaPartition :: int
  d_kafkaTopic :: string
  d_retryCount :: nat
  d_errorMessage :: "string option"

text \<open>
  Validation on \<^verbatim>\<open>save()\<close>, path by path: \<^verbatim>\<open>type\<close> is cast to a string, trimmed,
  required and checked against the enum; \<^verbatim>\<open>userId\<close> is cast to a string; \<^verbatim>\<open>data\<close> is
  required, with default \<^verbatim>\<open>{}\<close> when undefined; \<^verbatim>\<open>source\<close> is checked against its enum;
  \<^verbatim>\<open>timestamp\<close> must be a valid date and \<^verbatim>\<open>metadata.kafkaOffset\<close> no \<^verbatim>\<open>NaN\<close>. The result
  is the document as stored, with the identifier \<open>i\<close>.
\<close>

definition Event_validate :: "lib \<Rightarrow> event_doc \<Rightarrow> nat \<Rightarrow> error + event" where
  "Event_validate L d i =
     (case castStr L (d_type d) of
        None \<Rightarrow> Inl (ValidationError ''type: Cast to string failed'')
      | Some None \<Rightarrow> Inl (ValidationError ''Path `type` is required.'')
      | Some (Some ty) \<Rightarrow>
          if trim ty = [] then Inl (ValidationError ''Path `type` is required.'')
          else if trim ty \<notin> set Event_types
            then Inl (ValidationError (trim ty @ '' is not a valid enum value for path `type`.''))
          else
            (case castStr L (d_userId d) of
               None \<Rightarrow> Inl (ValidationError ''userId: Cast to string failed'')
             | Some uo \<Rightarrow>
                 if d_data d = Some JNull then Inl (ValidationError ''Path `data` is required.'')
                 else if d_source d \<notin> set Event_sources
                   then Inl (ValidationError (d_source d @ '' is not a valid enum value for path `source`.''))
                 else
                   (case d_timestamp d of
                      None \<Rightarrow> Inl (ValidationError ''timestamp: Cast to date failed'')
                    | Some ts \<Rightarrow>
                        if d_kafkaOffset d = NaN
                          then Inl (ValidationError ''metadata.kafkaOffset: Cast to Number failed'')
                        else
                             Inr \<lparr> eid = i, etype = trim ty, euserId = uo,
                                   edata = (case d_data d of None \<Rightarrow> JObj [] | Some v \<Rightarrow> v),
                                   esource = d_source d, etimestamp = ts,
                                   processed = d_processed d,
                                   kafkaOffset = Some (d_kafkaOffset d),
                                   kafkaPartition = Some (d_kafkaPartition d),
                                   kafkaTopic = Some (d_kafkaTopic d),
                                   retryCount = d_retryCount d,
                                   errorMessage = d_errorMessage d \<rparr>)))"

text \<open>\<^verbatim>\<open>new Event(d).save()\<close>: validate, then insert under a fresh identifier.\<close>

definition Event_save :: "lib \<Rightarrow> event_doc \<Rightarrow> store \<Rightarrow> error + store" where
  "Event_save L d st =
     (case Event_validate L d (nextId st) of
        Inl e \<Rightarrow> Inl e
      | Inr ev \<Rightarrow> Inr (st\<lparr>events := events st @ [ev], nextId := Suc (nextId st)\<rparr>))"

subsection \<open>Saving a User\<close>

text \<open>
  The own enumerable properties that \<^verbatim>\<open>{...data}\<close> copies: the members of an object,
  the indexed elements of an array or a string, nothing for other values.
\<close>

fun spread :: "lib \<Rightarrow> jsval \<Rightarrow> (string \<times> json) list" where
  "spread L (Some (JObj kvs)) = kvs"
| "spread L (Some (JArr xs)) = zip (map showNat [0..<length xs]) xs"
| "spread L (Some (JStr s)) =
     (if isAscii s then zip (map showNat [0..<length s]) (map (\<lambda>c. JStr [c]) s)
      else String_spread L s)"
| "spread L v = []"

text \<open>\<^verbatim>\<open>s.toLowerCase()\<close>: the letters A to Z of an ASCII string, the library's otherwise.\<close>

definition toLowerCase :: "lib \<Rightarrow> string \<Rightarrow> string" where
  "toLowerCase L s =
     (if isAscii s
      then map (\<lambda>c. case map_of (zip ''ABCDEFGHIJKLMNOPQRSTUVWXYZ'' ''abcdefghijklmnopqrstuvwxyz'') c of
                      Some l \<Rightarrow> l | None \<Rightarrow> c) s
      else String_toLowerCase L s)"

text \<open>
  Validation of \<^verbatim>\<open>new User({...data, metadata: {source: 'kafka', tags: ['kafka-import'],
  preferences: {}}})\<close>: \<^verbatim>\<open>email\<close> is cast, trimmed and lower-cased, required and matched
  against the pattern; \<^verbatim>\<open>name\<close> is cast and trimmed, required, of length 2 to 100;
  \<^verbatim>\<open>age\<close>, when present, lies in 0..150; \<^verbatim>\<open>isActive\<close> defaults to true. The first
  failing path gives the error. The result is the document as stored under \<open>i\<close>.
\<close>

definition User_validate :: "lib \<Rightarrow> (string \<times> json) list \<Rightarrow> oid \<Rightarrow> error + user" where
  "User_validate L kvs i =
     (case castStr L (map_of kvs ''email'') of
        None \<Rightarrow> Inl (ValidationError ''email: Cast to string failed'')
      | Some None \<Rightarrow> Inl (ValidationError ''Path `email` is required.'')
      | Some (Some em) \<Rightarrow>
          if toLowerCase L (trim em) = [] then Inl (ValidationError ''Path `email` is required.'')
          else if \<not> regexTest emailPattern (toLowerCase L (trim em))
            then Inl (ValidationError ''Please enter a valid email'')
          else
            (case castStr L (map_of kvs ''name'') of
               None \<Rightarrow> Inl (ValidationError ''name: Cast to string failed'')
             | Some None \<Rightarrow> Inl (ValidationError ''Path `name` is required.'')
             | Some (Some nm) \<Rightarrow>
                 if trim nm = [] then Inl (ValidationError ''Path `name` is required.'')
                 else if jsLength (trim nm) < 2
                   then Inl (ValidationError ''Path `name` is shorter than the minimum allowed length (2).'')
                 else if jsLength (trim nm) > 100
                   then Inl (ValidationError ''Path `name` is longer than the maximum allowed length (100).'')
                 else
                   (case castNum L (map_of kvs ''age'') of
                      None \<Rightarrow> Inl (ValidationError ''age: Cast to Number failed'')
                    | Some ao \<Rightarrow>
                        if (case ao of None \<Rightarrow> False | Some a \<Rightarrow> a < 0)
                          then Inl (ValidationError ''Path `age` is less than minimum allowed value (0).'')
                        else if (case ao of None \<Rightarrow> False | Some a \<Rightarrow> a > 150)
                          then Inl (ValidationError ''Path `age` is more than maximum allowed value (150).'')
                        else
                          (case (if map_of kvs ''isActive'' = None then Some (Some True)
                                 else castBool L (map_of kvs ''isActive'')) of
                             None \<Rightarrow> Inl (ValidationError ''isActive: Cast to Boolean failed'')
                           | Some act \<Rightarrow>
                               Inr \<lparr> uid = i, email = toLowerCase L (trim em), name = trim nm,
                                     age = ao, isActive = act, msource = ''kafka'',
                                     tags = [''kafka-import''] \<rparr>))))"

text \<open>
  The identifier of the new document: generated when the document has no \<^verbatim>\<open>_id\<close>, the
  client's when it casts to an ObjectId.
\<close>

definition User_id :: "lib \<Rightarrow> (string \<times> json) list \<Rightarrow> nat \<Rightarrow> error + oid" where
  "User_id L kvs n =
     (case map_of kvs ''_id'' of
        None \<Rightarrow> Inr (Gen n)
      | Some JNull \<Rightarrow> Inl (Error ''document must have an _id before saving'')
      | Some v \<Rightarrow>
          (case castObjectId L v of
             None \<Rightarrow> Inl (ValidationError ''_id: Cast to ObjectId failed'')
           | Some s \<Rightarrow> Inr (Given s)))"

text \<open>
  \<^verbatim>\<open>user.save()\<close>: validation first, then the insert, which the unique indexes on
  \<^verbatim>\<open>_id\<close> and on \<^verbatim>\<open>email\<close> (\<^verbatim>\<open>unique: true\<close>) reject with code 11000.
\<close>

definition User_save :: "lib \<Rightarrow> (string \<times> json) list \<Rightarrow> store \<Rightarrow> error + store" where
  "User_save L kvs st =
     (case User_id L kvs (nextId st) of
        Inl e \<Rightarrow> Inl e
      | Inr i \<Rightarrow>
          (case User_validate L kvs i of
             Inl e \<Rightarrow> Inl e
           | Inr u \<Rightarrow>
               if uid u \<in> set (map uid (users st)) \<or> email u \<in> set (map email (users st))
                 then Inl (MongoServerError 11000 ''E11000 duplicate key error collection: users'')
               else Inr (st\<lparr>users := users st @ [u], nextId := Suc (nextId st)\<rparr>)))"

section \<open>The consumer (\<^verbatim>\<open>KafkaConsumer\<close>)\<close>

text \<open>A delivered message (\<^verbatim>\<open>EachMessagePayload\<close>): \<open>m_value = None\<close> is a null value.\<close>

record kafka_message =
  m_value :: "string option"
  m_offset :: string
  m_timestamp :: string
  m_key :: "string option"

record payload =
  p_topic :: string
  p_partition :: int
  p_message :: kafka_message

text \<open>The property reads inside a logging call: the first one that throws decides.\<close>

fun reads :: "jsval \<Rightarrow> string list \<Rightarrow> error + unit" where
  "reads v [] = Inr ()"
| "reads v (k # ks) = (case get v k of Inl e \<Rightarrow> Inl e | Inr _ \<Rightarrow> reads v ks)"

definition storeEvent :: "lib \<Rightarrow> event_doc \<Rightarrow> store \<Rightarrow> error + store" where
  "storeEvent L eventData st =
     (case Event_save L eventData st of
        Inl e \<Rightarrow> Inl e
      | Inr st' \<Rightarrow> Inr st')"

definition handleUserCreated :: "lib \<Rightarrow> jsval \<Rightarrow> store \<Rightarrow> error + store" where
  "handleUserCreated L data st =
     (case User_save L (spread L data) st of
        Inr st' \<Rightarrow> Inr st'
      | Inl e \<Rightarrow>
          if code e = Some 11000
            then (case reads data [''email''] of Inl e' \<Rightarrow> Inl e' | Inr _ \<Rightarrow> Inr st)
          else Inl e)"

text \<open>\<^verbatim>\<open>{...data, k: v}\<close>: the literal member replaces one copied from \<open>data\<close>.\<close>

definition assign :: "(string \<times> json) list \<Rightarrow> string \<Rightarrow> json \<Rightarrow> (string \<times> json) list" where
  "assign kvs k v = filter (\<lambda>kv. fst kv \<noteq> k) kvs @ [(k, v)]"

definition handleUserUpdated :: "lib \<Rightarrow> jsval \<Rightarrow> jsval \<Rightarrow> store \<Rightarrow> error + store" where
  "handleUserUpdated L userId data st =
     (case User_findByIdAndUpdate L userId
             (assign (spread L data) ''updatedAt'' (JNum (int (Date_now L)))) (users st) of
        Inl e \<Rightarrow> Inl e
      | Inr (u, us) \<Rightarrow> Inr (st\<lparr>users := us\<rparr>))"

definition handleUserDeleted :: "lib \<Rightarrow> jsval \<Rightarrow> store \<Rightarrow> error + store" where
  "handleUserDeleted L userId st =
     (case User_findByIdAndUpdate L userId [(''isActive'', JBool False)] (users st) of
        Inl e \<Rightarrow> Inl e
      | Inr (u, us) \<Rightarrow> Inr (st\<lparr>users := us\<rparr>))"

definition handleOrderCreated :: "jsval \<Rightarrow> store \<Rightarrow> error + store" where
  "handleOrderCreated data st =
     (case reads data [''id'', ''userId''] of Inl e \<Rightarrow> Inl e | Inr _ \<Rightarrow> Inr st)"

definition handleNotificationSent :: "jsval \<Rightarrow> store \<Rightarrow> error + store" where
  "handleNotificationSent data st =
     (case reads data [''id'', ''userId'', ''notificationType''] of
        Inl e \<Rightarrow> Inl e
      | Inr _ \<Rightarrow> Inr st)"

definition handlePurchaseCreated :: "jsval \<Rightarrow> store \<Rightarrow> error + store" where
  "handlePurchaseCreated data st =
     (case reads data [''userId'', ''username'', ''data''] of
        Inl e \<Rightarrow> Inl e
      | Inr _ \<Rightarrow>
          (case get data ''data'' of
             Inl e \<Rightarrow> Inl e
           | Inr inner \<Rightarrow>
               (case reads inner [''price'', ''product'', ''category'', ''timestamp''] of
                  Inl e \<Rightarrow> Inl e
                | Inr _ \<Rightarrow> Inr st)))"

text \<open>
  \<^verbatim>\<open>processEvent\<close>: the destructuring of \<^verbatim>\<open>eventData\<close>, then the \<^verbatim>\<open>switch\<close> on the
  message's own \<^verbatim>\<open>type\<close> (strict equality with the string literals); the \<^verbatim>\<open>catch\<close>
  logs and rethrows.
\<close>

definition processEvent :: "lib \<Rightarrow> json \<Rightarrow> string \<Rightarrow> store \<Rightarrow> error + store" where
  "processEvent L eventData topic st =
     (case get (Some eventData) ''type'' of
        Inl e \<Rightarrow> Inl e
      | Inr ty \<Rightarrow>
          (case get (Some eventData) ''data'' of
             Inl e \<Rightarrow> Inl e
           | Inr data \<Rightarrow>
               (case get (Some eventData) ''userId'' of
                  Inl e \<Rightarrow> Inl e
                | Inr userId \<Rightarrow>
                    if ty = Some (JStr ''user.created'') then handleUserCreated L data st
                    else if ty = Some (JStr ''user.updated'') then handleUserUpdated L userId data st
                    else if ty = Some (JStr ''user.deleted'') then handleUserDeleted L userId st
                    else if ty = Some (JStr ''order.created'') then handleOrderCreated data st
                    else if ty = Some (JStr ''notification.sent'') then handleNotificationSent data st
                    else if ty = Some (JStr ''purchase.created'') then handlePurchaseCreated data st
                    else Inr st)))"

text \<open>
  The object literal that \<^verbatim>\<open>handleMessage\<close> passes to \<^verbatim>\<open>storeEvent\<close>; reading
  \<^verbatim>\<open>eventData.type\<close> throws when the parsed body is \<^verbatim>\<open>null\<close>.
\<close>

definition eventOf :: "lib \<Rightarrow> payload \<Rightarrow> json \<Rightarrow> error + event_doc" where
  "eventOf L p eventData =
     (case get (Some eventData) ''type'' of
        Inl e \<Rightarrow> Inl e
      | Inr ty \<Rightarrow>
          (case get (Some eventData) ''userId'' of
             Inl e \<Rightarrow> Inl e
           | Inr userId \<Rightarrow>
               (case get (Some eventData) ''data'' of
                  Inl e \<Rightarrow> Inl e
                | Inr data \<Rightarrow>
                    Inr \<lparr> d_type = Some (orElse ty (JStr ''custom'')),
                          d_userId = userId,
                          d_data = Some (orElse data eventData),
                          d_source = ''kafka'',
                          d_timestamp =
                            (if m_timestamp (p_message p) \<noteq> []
                             then Date_parse L (m_timestamp (p_message p))
                             else Some (Date_now L)),
                          d_processed = False,
                          d_kafkaOffset = parseInt (m_offset (p_message p)),
                          d_kafkaPartition = p_partition p,
                          d_kafkaTopic = p_topic p,
                          d_retryCount = 0,
                          d_errorMessage = None \<rparr>)))"

text \<open>The document that \<^verbatim>\<open>storeFailedEvent\<close> builds.\<close>

definition failedEvent :: "lib \<Rightarrow> payload \<Rightarrow> error \<Rightarrow> event_doc" where
  "failedEvent L p err =
     \<lparr> d_type = Some (JStr ''system.error''),
       d_userId = None,
       d_data = Some (JObj
         ((case m_value (p_message p) of None \<Rightarrow> [] | Some v \<Rightarrow> [(''originalMessage'', JStr v)]) @
          [(''error'', JStr (message err)),
           (''topic'', JStr (p_topic p)),
           (''partition'', JNum (p_partition p)),
           (''offset'', JStr (m_offset (p_message p)))])),
       d_source = ''kafka'',
       d_timestamp = Some (Date_now L),
       d_processed = False,
       d_kafkaOffset = parseInt (m_offset (p_message p)),
       d_kafkaPartition = p_partition p,
       d_kafkaTopic = p_topic p,
       d_retryCount = 1,
       d_errorMessage = Some (message err) \<rparr>"

text \<open>
  \<^verbatim>\<open>storeFailedEvent\<close>: the whole body is inside \<^verbatim>\<open>try\<close>, and the \<^verbatim>\<open>catch\<close> only logs,
  so a failed save leaves the store as it was and nothing is thrown.
\<close>

definition storeFailedEvent :: "lib \<Rightarrow> payload \<Rightarrow> error \<Rightarrow> store \<Rightarrow> error + store" where
  "storeFailedEvent L p err st =
     (case Event_save L (failedEvent L p err) st of
        Inl storeError \<Rightarrow> Inr st
      | Inr st' \<Rightarrow> Inr st')"

text \<open>
  \<^verbatim>\<open>handleMessage\<close>. An absent or empty value returns at once. Otherwise the body is
  parsed, the Event is stored, and the event is processed; whatever is thrown on the way
  goes to \<^verbatim>\<open>storeFailedEvent\<close>, with the store as it is at that moment.
\<close>

definition handleMessage :: "lib \<Rightarrow> payload \<Rightarrow> store \<Rightarrow> error + store" where
  "handleMessage L p st =
     (case m_value (p_message p) of
        None \<Rightarrow> Inr st
      | Some messageValue \<Rightarrow>
          if messageValue = [] then Inr st
          else
            (case JSON_parse L messageValue of
               Inl e \<Rightarrow> storeFailedEvent L p e st
             | Inr eventData \<Rightarrow>
                 (case eventOf L p eventData of
                    Inl e \<Rightarrow> storeFailedEvent L p e st
                  | Inr d \<Rightarrow>
                      (case storeEvent L d st of
                         Inl e \<Rightarrow> storeFailedEvent L p e st
                       | Inr st1 \<Rightarrow>
                           (case processEvent L eventData (p_topic p) st1 of
                              Inl e \<Rightarrow> storeFailedEvent L p e st1
                            | Inr st2 \<Rightarrow> Inr st2)))))"

section \<open>The retry endpoint (\<^verbatim>\<open>EventController.retryFailedEvents\<close>)\<close>

text \<open>
  The cursor's \<^verbatim>\<open>limit(n)\<close>, as the database defines it: 0 means no limit, a negative
  number is taken by its absolute value.
\<close>

definition limitTo :: "int \<Rightarrow> 'a list \<Rightarrow> 'a list" where
  "limitTo n xs = (if n = 0 then xs else take (nat \<bar>n\<bar>) xs)"

text \<open>
  \<^verbatim>\<open>Event.find({processed: false, 'metadata.retryCount': {$lt: 3}}).sort({timestamp: 1})
  .limit(n).lean()\<close>. Documents with equal timestamps keep their stored order here.
\<close>

definition findFailed :: "int \<Rightarrow> event list \<Rightarrow> event list" where
  "findFailed n evs =
     limitTo n (sort_key etimestamp (filter (\<lambda>e. \<not> processed e \<and> retryCount e < 3) evs))"

text \<open>\<^verbatim>\<open>Event.findByIdAndUpdate(id, update)\<close>: the document with this identifier, if any.\<close>

fun Event_findByIdAndUpdate :: "nat \<Rightarrow> (event \<Rightarrow> event) \<Rightarrow> event list \<Rightarrow> event list" where
  "Event_findByIdAndUpdate i f [] = []"
| "Event_findByIdAndUpdate i f (e # es) =
     (if eid e = i then f e # es else e # Event_findByIdAndUpdate i f es)"

text \<open>\<^verbatim>\<open>{$inc: {'metadata.retryCount': 1}, $unset: {'metadata.errorMessage': 1}}\<close>\<close>

definition incRetry :: "event \<Rightarrow> event" where
  "incRetry e = e\<lparr>retryCount := retryCount e + 1, errorMessage := None\<rparr>"

text \<open>\<^verbatim>\<open>{processed: true}\<close>\<close>

definition markProcessed :: "event \<Rightarrow> event" where
  "markProcessed e = e\<lparr>processed := True\<rparr>"

text \<open>Both updates on one document.\<close>

definition touch :: "event \<Rightarrow> event" where
  "touch e = e\<lparr>retryCount := retryCount e + 1, errorMessage := None, processed := True\<rparr>"

text \<open>
  The body of the \<^verbatim>\<open>map\<close> callback for one selected event: the two updates, then
  \<^verbatim>\<open>retriedCount++\<close> on the counter \<open>count\<close>. No handler is called (the source says: "Here you would implement
  the actual retry logic. For now, we'll just mark it as processed").
\<close>

definition retryOne :: "event \<Rightarrow> nat \<times> store \<Rightarrow> nat \<times> store" where
  "retryOne event acc =
     (case acc of (count, st) \<Rightarrow>
        (count + 1,
         st\<lparr>events :=
              Event_findByIdAndUpdate (eid event) markProcessed
                (Event_findByIdAndUpdate (eid event) incRetry (events st))\<rparr>))"

record response =
  status :: nat
  success :: bool
  r_message :: string
  retriedCount :: "nat option"

text \<open>
  \<^verbatim>\<open>retryFailedEvents\<close>, on \<^verbatim>\<open>req.query.limit\<close>: the default 10 when it is absent,
  \<^verbatim>\<open>parseInt\<close> otherwise. A limit that is \<^verbatim>\<open>NaN\<close> or infinite makes the query fail, and
  the outer \<^verbatim>\<open>catch\<close> answers 500.
\<close>

definition retryFailedEvents :: "string option \<Rightarrow> store \<Rightarrow> response \<times> store" where
  "retryFailedEvents limit st =
     (case (case limit of None \<Rightarrow> Num 10 | Some s \<Rightarrow> parseInt s) of
        Num n \<Rightarrow>
          if length (findFailed n (events st)) = 0
            then (\<lparr> status = 200, success = True, r_message = ''No failed events to retry'',
                     retriedCount = Some 0 \<rparr>, st)
          else
            (case fold retryOne (findFailed n (events st)) (0, st) of
               (count, st') \<Rightarrow>
                 (\<lparr> status = 200, success = True,
                     r_message = showNat count @ '' events retried successfully'',
                     retriedCount = Some count \<rparr>, st'))
      | _ \<Rightarrow>
          (\<lparr> status = 500, success = False, r_message = ''Internal server error'',
              retriedCount = None \<rparr>, st))"

section \<open>The producer (\<^verbatim>\<open>KafkaProducer.sendMessage\<close>)\<close>

text \<open>The record handed to the broker client's \<^verbatim>\<open>send\<close>.\<close>

record producer_record =
  r_topic :: string
  r_key :: json
  r_value :: string
  r_timestamp :: string
  r_headers :: "(string \<times> json) list"

text \<open>
  \<^verbatim>\<open>sendMessage(topic, message, key?)\<close>. \<open>isConnected\<close> is the producer's flag,
  \<open>stringify\<close> is \<^verbatim>\<open>JSON.stringify\<close>, \<open>now\<close> the clock and \<open>send\<close> the broker
  client, which answers with the placements (partition, offset) or throws. The result is
  the record that was published. Reading \<^verbatim>\<open>message.type\<close> throws on a \<^verbatim>\<open>null\<close> message
  and reading \<^verbatim>\<open>result[0].partition\<close> on an empty answer; the \<^verbatim>\<open>catch\<close> rethrows.
\<close>

definition sendMessage ::
  "bool \<Rightarrow> (json \<Rightarrow> string) \<Rightarrow> nat \<Rightarrow> (producer_record \<Rightarrow> error + (int \<times> string) list) \<Rightarrow>
   string \<Rightarrow> json \<Rightarrow> string option \<Rightarrow> error + producer_record" where
  "sendMessage isConnected stringify now send topic msg key =
     (if \<not> isConnected then Inl (Error ''Kafka producer not connected'')
      else
        (case get (Some msg) ''type'' of
           Inl e \<Rightarrow> Inl e
         | Inr ty \<Rightarrow>
             (case get (Some msg) ''userId'' of
                Inl e \<Rightarrow> Inl e
              | Inr userId \<Rightarrow>
                  (case send
                          \<lparr> r_topic = topic,
                            r_key = orElse (map_option JStr key) (orElse userId (JStr ''default'')),
                            r_value = stringify msg,
                            r_timestamp = showNat now,
                            r_headers =
                              [(''content-type'', JStr ''application/json''),
                               (''source'', JStr ''api''),
                               (''message-type'', orElse ty (JStr ''unknown''))] \<rparr> of
                     Inl e \<Rightarrow> Inl e
                   | Inr [] \<Rightarrow> Inl (TypeError ''Cannot read properties of undefined'')
                   | Inr (placement # rest) \<Rightarrow>
                       Inr \<lparr> r_topic = topic,
                             r_key = orElse (map_option JStr key) (orElse userId (JStr ''default'')),
                             r_value = stringify msg,
                             r_timestamp = showNat now,
                             r_headers =
                               [(''content-type'', JStr ''application/json''),
                                (''source'', JStr ''api''),
                                (''message-type'', orElse ty (JStr ''unknown''))] \<rparr>))))"

section \<open>Example inputs\<close>

text \<open>
  A concrete library for the examples: it parses the three message bodies below as
  \<^verbatim>\<open>JSON.parse\<close> does and rejects every other text, treats every date string as invalid
  (the example messages carry no timestamp, so the clock is used), and casts nothing;
  the example strings are ASCII.
\<close>

definition quoted :: "string \<Rightarrow> string" where
  "quoted s = [CHR 0x22] @ s @ [CHR 0x22]"

definition body_userCreated :: string where
  "body_userCreated =
     ''{'' @ quoted ''type'' @ '':'' @ quoted ''user.created'' @ '','' @ quoted ''data'' @ '':{'' @
       quoted ''email'' @ '':'' @ quoted ''a@x.com'' @ '','' @ quoted ''name'' @ '':'' @ quoted ''Ann'' @ ''}}''"

definition json_userCreated :: json where
  "json_userCreated =
     JObj [(''type'', JStr ''user.created''),
           (''data'', JObj [(''email'', JStr ''a@x.com''), (''name'', JStr ''Ann'')])]"

definition body_noEmail :: string where
  "body_noEmail =
     ''{'' @ quoted ''type'' @ '':'' @ quoted ''user.created'' @ '','' @ quoted ''data'' @ '':{'' @
       quoted ''name'' @ '':'' @ quoted ''Ann'' @ ''}}''"

definition json_noEmail :: json where
  "json_noEmail =
     JObj [(''type'', JStr ''user.created''), (''data'', JObj [(''name'', JStr ''Ann'')])]"

definition body_orderShipped :: string where
  "body_orderShipped =
     ''{'' @ quoted ''type'' @ '':'' @ quoted ''order.shipped'' @ '','' @ quoted ''data'' @ '':{'' @
       quoted ''id'' @ '':7}}''"

definition json_orderShipped :: json where
  "json_orderShipped =
     JObj [(''type'', JStr ''order.shipped''), (''data'', JObj [(''id'', JNum 7)])]"


definition exampleParse :: "string \<Rightarrow> error + json" where
  "exampleParse s =
     (if s = body_userCreated then Inr json_userCreated
      else if s = body_noEmail then Inr json_noEmail
      else if s = body_orderShipped then Inr json_orderShipped
      else Inl (SyntaxError ''Unexpected token in JSON''))"

definition exampleLib :: lib where
  "exampleLib =
     \<lparr> JSON_parse = exampleParse,
       Date_now = 1700000000000,
       Date_parse = (\<lambda>s. None),
       castString = (\<lambda>v. None),
       castNumber = (\<lambda>v. None),
       castBoolean = (\<lambda>v. None),
       castObjectId = (\<lambda>v. None),
       User_findByIdAndUpdate = (\<lambda>i u us. Inr (None, us)),
       String_toLowerCase = (\<lambda>s. s),
       String_spread = (\<lambda>s. []) \<rparr>"

text \<open>A message on \<^verbatim>\<open>user-events\<close>, partition 0, with the given value and offset.\<close>

definition delivery :: "string option \<Rightarrow> string \<Rightarrow> payload" where
  "delivery v off =
     \<lparr> p_topic = ''user-events'', p_partition = 0,
       p_message = \<lparr> m_value = v, m_offset = off, m_timestamp = [], m_key = None \<rparr> \<rparr>"

definition emptyStore :: store where
  "emptyStore = \<lparr> events = [], users = [], nextId = 0 \<rparr>"

text \<open>
  What the store holds after the example deliveries: the Event of the \<^verbatim>\<open>user.created\<close>
  message at offset 7 with the User it creates, and the Event of the message without an
  email at offset 8.
\<close>

definition event_userCreated :: event where
  "event_userCreated =
     \<lparr> eid = 0, etype = ''user.created'', euserId = None,
       edata = JObj [(''email'', JStr ''a@x.com''), (''name'', JStr ''Ann'')],
       esource = ''kafka'', etimestamp = 1700000000000, processed = False,
       kafkaOffset = Some (Num 7), kafkaPartition = Some 0, kafkaTopic = Some ''user-events'',
       retryCount = 0, errorMessage = None \<rparr>"

definition user_ann :: user where
  "user_ann =
     \<lparr> uid = Gen 1, email = ''a@x.com'', name = ''Ann'', age = None,
       isActive = Some True, msource = ''kafka'', tags = [''kafka-import''] \<rparr>"

definition annStore :: store where
  "annStore = \<lparr> events = [event_userCreated], users = [user_ann], nextId = 2 \<rparr>"

definition event_noEmail :: event where
  "event_noEmail =
     \<lparr> eid = 0, etype = ''user.created'', euserId = None,
       edata = JObj [(''name'', JStr ''Ann'')],
       esource = ''kafka'', etimestamp = 1700000000000, processed = False,
       kafkaOffset = Some (Num 8), kafkaPartition = Some 0, kafkaTopic = Some ''user-events'',
       retryCount = 0, errorMessage = None \<rparr>"

definition noEmailStore :: store where
  "noEmailStore = \<lparr> events = [event_noEmail], users = [], nextId = 1 \<rparr>"

text \<open>Stored Events for the retry examples: identifier, timestamp, flag and retry count.\<close>

definition exampleEvent :: "nat \<Rightarrow> nat \<Rightarrow> bool \<Rightarrow> nat \<Rightarrow> event" where
  "exampleEvent i ts done rc =
     \<lparr> eid = i, etype = ''custom'', euserId = None, edata = JObj [],
       esource = ''kafka'', etimestamp = ts, processed = done,
       kafkaOffset = Some (Num (int i)), kafkaPartition = Some 0, kafkaTopic = Some ''user-events'',
       retryCount = rc, errorMessage = None \<rparr>"

definition retryStore :: store where
  "retryStore =
     \<lparr> events = [exampleEvent 0 30 False 2, exampleEvent 1 5 False 3, exampleEvent 2 1 True 0,
                 exampleEvent 3 10 False 0, exampleEvent 4 20 False 1],
       users = [], nextId = 5 \<rparr>"

definition backlog :: "nat \<Rightarrow> store" where
  "backlog k = \<lparr> events = map (\<lambda>i. exampleEvent i i False 1) [0..<k], users = [], nextId = k \<rparr>"

text \<open>
  Producer examples: the message that \<^verbatim>\<open>sendSystemEvent\<close> builds (no \<^verbatim>\<open>userId\<close>), one
  that \<^verbatim>\<open>sendUserEvent\<close> builds, a serializer and a broker client that accepts.
\<close>

definition json_systemHealth :: json where
  "json_systemHealth =
     JObj [(''type'', JStr ''system.health''), (''data'', JObj []), (''source'', JStr ''system'')]"

definition json_userLogin :: json where
  "json_userLogin =
     JObj [(''type'', JStr ''user.login''), (''userId'', JStr ''u1''), (''data'', JObj []),
           (''source'', JStr ''api'')]"

definition body_systemHealth :: string where
  "body_systemHealth =
     ''{'' @ quoted ''type'' @ '':'' @ quoted ''system.health'' @ '','' @ quoted ''data'' @ '':{},'' @
       quoted ''source'' @ '':'' @ quoted ''system'' @ ''}''"

definition body_userLogin :: string where
  "body_userLogin =
     ''{'' @ quoted ''type'' @ '':'' @ quoted ''user.login'' @ '','' @ quoted ''userId'' @ '':'' @
       quoted ''u1'' @ '','' @ quoted ''data'' @ '':{},'' @ quoted ''source'' @ '':'' @ quoted ''api'' @ ''}''"

definition exampleStringify :: "json \<Rightarrow> string" where
  "exampleStringify j =
     (if j = json_systemHealth then body_systemHealth
      else if j = json_userLogin then body_userLogin
      else ''null'')"

definition exampleSend :: "producer_record \<Rightarrow> error + (int \<times> string) list" where
  "exampleSend r = Inr [(0, ''0'')]"

section \<open>Properties of the consumer\<close>

subsection \<open>The failure record is rejected by the schema\<close>

lemmas trim_defs = trim_def trimStart_def trimEnd_def dropAny.simps whiteSpace_def

lemma trim_system_error: "trim ''system.error'' = ''system.error''"
  by (simp add: trim_defs)

lemma trim_examples:
  "trim ''user.created'' = ''user.created''"
  "trim ''order.shipped'' = ''order.shipped''"
  "trim ''a@x.com'' = ''a@x.com''"
  "trim ''Ann'' = ''Ann''"
  "trim ''A'' = ''A''"
  by (simp_all add: trim_defs)

lemma trimStart_examples:
  "trimStart ''0'' = ''0''" "trimStart ''2'' = ''2''" "trimStart ''7'' = ''7''"
  "trimStart ''8'' = ''8''" "trimStart ''9'' = ''9''" "trimStart ''42'' = ''42''"
  "trimStart ''100'' = ''100''"
  by (simp_all add: trimStart_def dropAny.simps whiteSpace_def)

lemma unsignedValue_examples:
  "unsignedValue ''0'' = Some 0" "unsignedValue ''2'' = Some 2" "unsignedValue ''7'' = Some 7"
  "unsignedValue ''8'' = Some 8" "unsignedValue ''9'' = Some 9" "unsignedValue ''42'' = Some 42"
  "unsignedValue ''100'' = Some 100"
  by (simp_all add: unsignedValue_def digitsValue_def isDigitOf_def digitVal_def)

lemma toDouble_examples:
  "toDouble 0 = Some 0" "toDouble 2 = Some 2" "toDouble 7 = Some 7" "toDouble 8 = Some 8"
  "toDouble 9 = Some 9" "toDouble 42 = Some 42" "toDouble 100 = Some 100"
  by (simp_all add: toDouble_def excess.simps Let_def)

lemma parseInt_examples:
  "parseInt ''0'' = Num 0" "parseInt ''2'' = Num 2" "parseInt ''7'' = Num 7"
  "parseInt ''8'' = Num 8" "parseInt ''9'' = Num 9" "parseInt ''42'' = Num 42"
  "parseInt ''100'' = Num 100"
  by (simp_all add: parseInt_def trimStart_examples unsignedValue_examples toDouble_examples
        signedNumber_def)

lemma system_error_not_in_enum: "''system.error'' \<notin> set Event_types"
  by (simp add: Event_types_def)

lemma Event_validate_failedEvent:
  "Event_validate L (failedEvent L p err) i =
     Inl (ValidationError ''system.error is not a valid enum value for path `type`.'')"
  unfolding Event_validate_def
  by (simp add: failedEvent_def trim_system_error system_error_not_in_enum)

lemma storeFailedEvent_unchanged: "storeFailedEvent L p err st = Inr st"
  by (simp add: storeFailedEvent_def Event_save_def Event_validate_failedEvent)

lemma handleMessage_never_throws: "\<exists>st'. handleMessage L p st = Inr st'"
  by (simp add: handleMessage_def storeFailedEvent_unchanged
           split: option.split sum.split)

lemma decode_failure_leaves_store:
  "m_value (p_message p) = Some body \<Longrightarrow> JSON_parse L body = Inl e \<Longrightarrow>
   handleMessage L p st = Inr st"
  by (simp add: handleMessage_def storeFailedEvent_unchanged)

text \<open>
  C10. A message whose value is absent or empty is acknowledged without any write: the
  handler returns normally and the store, Events included, is exactly what it was.
\<close>

theorem handleMessage_empty_value:
  "m_value (p_message p) = None \<or> m_value (p_message p) = Some [] \<Longrightarrow>
   handleMessage L p st = Inr st"
  by (auto simp: handleMessage_def)

theorem handleMessage_empty_value_witness:
  "m_value (p_message (delivery (Some []) ''41'')) = Some [] \<and>
   handleMessage exampleLib (delivery (Some []) ''41'') emptyStore = Inr emptyStore \<and>
   events emptyStore = []"
  using handleMessage_empty_value [of "delivery (Some [])  ''41''" exampleLib emptyStore]
  by (simp add: delivery_def emptyStore_def)

text \<open>
  C3, at the input \<^verbatim>\<open>not json\<close> on \<^verbatim>\<open>user-events\<close>: the body does not parse, the handler
  returns normally, and the Event store is still empty, because the \<^verbatim>\<open>system.error\<close>
  document fails the enum of \<^verbatim>\<open>EventSchema.type\<close> and \<^verbatim>\<open>storeFailedEvent\<close> swallows that.
\<close>

theorem poison_message_leaves_no_event:
  "JSON_parse exampleLib ''not json'' = Inl (SyntaxError ''Unexpected token in JSON'') \<and>
   handleMessage exampleLib (delivery (Some ''not json'') ''42'') emptyStore = Inr emptyStore \<and>
   events emptyStore = []"
  by (simp add: handleMessage_def storeFailedEvent_unchanged delivery_def emptyStore_def
        exampleLib_def exampleParse_def body_userCreated_def body_noEmail_def
        body_orderShipped_def quoted_def)

subsection \<open>The Event is stored before the handler runs\<close>

lemma handleUserCreated_events:
  "handleUserCreated L data st = Inr st' \<Longrightarrow> events st' = events st"
  by (auto simp: handleUserCreated_def User_save_def split: sum.splits if_splits)

lemma processEvent_events:
  "processEvent L eventData topic st = Inr st' \<Longrightarrow> events st' = events st"
  by (auto simp: processEvent_def handleUserCreated_events handleUserUpdated_def
        handleUserDeleted_def handleOrderCreated_def handleNotificationSent_def
        handlePurchaseCreated_def
      split: sum.splits if_splits prod.splits)

lemma storeEvent_valid:
  "Event_validate L d (nextId st) = Inr ev \<Longrightarrow>
   storeEvent L d st = Inr (st\<lparr>events := events st @ [ev], nextId := Suc (nextId st)\<rparr>)"
  by (simp add: storeEvent_def Event_save_def)

lemma eventOf_fields:
  "eventOf L p eventData = Inr d \<Longrightarrow>
   d_source d = ''kafka'' \<and> d_processed d = False \<and> d_retryCount d = 0 \<and>
   d_errorMessage d = None \<and> d_kafkaTopic d = p_topic p \<and>
   d_kafkaPartition d = p_partition p \<and> d_kafkaOffset d = parseInt (m_offset (p_message p))"
  by (auto simp: eventOf_def split: sum.splits)

lemma Event_validate_fields:
  "Event_validate L d i = Inr ev \<Longrightarrow>
   eid ev = i \<and> esource ev = d_source d \<and> processed ev = d_processed d \<and>
   retryCount ev = d_retryCount d \<and> errorMessage ev = d_errorMessage d \<and>
   kafkaTopic ev = Some (d_kafkaTopic d) \<and> kafkaPartition ev = Some (d_kafkaPartition d) \<and>
   kafkaOffset ev = Some (d_kafkaOffset d) \<and> etype ev \<in> set Event_types"
  unfolding Event_validate_def
  by (auto split: option.splits if_splits)

lemma handleMessage_valid:
  assumes "m_value (p_message p) = Some body" and "body \<noteq> []"
    and "JSON_parse L body = Inr eventData"
    and "eventOf L p eventData = Inr d"
    and "Event_validate L d (nextId st) = Inr ev"
  shows "handleMessage L p st =
           (case processEvent L eventData (p_topic p)
                   (st\<lparr>events := events st @ [ev], nextId := Suc (nextId st)\<rparr>) of
              Inl e \<Rightarrow> storeFailedEvent L p e (st\<lparr>events := events st @ [ev], nextId := Suc (nextId st)\<rparr>)
            | Inr st2 \<Rightarrow> Inr st2)"
  using assms by (simp add: handleMessage_def storeEvent_valid)

lemmas example_defs =
  exampleLib_def exampleParse_def body_userCreated_def body_noEmail_def body_orderShipped_def
  quoted_def json_userCreated_def json_noEmail_def json_orderShipped_def delivery_def
  emptyStore_def

lemmas user_defs =
  processEvent_def handleUserCreated_def User_save_def User_id_def User_validate_def
  trim_examples toLowerCase_def isAscii_def jsLength_def regexTest_def emailPattern_def
  localPart_def oneOrMore_def optional_def isWord_def

lemma example_eventOf_userCreated:
  "eventOf exampleLib (delivery v ''7'') json_userCreated = Inr
     \<lparr> d_type = Some (JStr ''user.created''), d_userId = None,
       d_data = Some (JObj [(''email'', JStr ''a@x.com''), (''name'', JStr ''Ann'')]),
       d_source = ''kafka'', d_timestamp = Some 1700000000000, d_processed = False,
       d_kafkaOffset = Num 7, d_kafkaPartition = 0, d_kafkaTopic = ''user-events'',
       d_retryCount = 0, d_errorMessage = None \<rparr>"
  by (simp add: eventOf_def example_defs orElse_def parseInt_examples)

lemma example_validate_userCreated:
  "Event_validate exampleLib
     \<lparr> d_type = Some (JStr ''user.created''), d_userId = None,
       d_data = Some (JObj [(''email'', JStr ''a@x.com''), (''name'', JStr ''Ann'')]),
       d_source = ''kafka'', d_timestamp = Some 1700000000000, d_processed = False,
       d_kafkaOffset = Num 7, d_kafkaPartition = 0, d_kafkaTopic = ''user-events'',
       d_retryCount = 0, d_errorMessage = None \<rparr> 0 = Inr event_userCreated"
  by (simp add: Event_validate_def event_userCreated_def trim_examples
        Event_types_def Event_sources_def)

lemma example_process_userCreated:
  "processEvent exampleLib json_userCreated ''user-events''
     \<lparr> events = [event_userCreated], users = [], nextId = 1 \<rparr> = Inr annStore"
  by (simp add: user_defs json_userCreated_def user_ann_def annStore_def)

lemma example_eventOf_noEmail:
  "eventOf exampleLib (delivery v ''8'') json_noEmail = Inr
     \<lparr> d_type = Some (JStr ''user.created''), d_userId = None,
       d_data = Some (JObj [(''name'', JStr ''Ann'')]),
       d_source = ''kafka'', d_timestamp = Some 1700000000000, d_processed = False,
       d_kafkaOffset = Num 8, d_kafkaPartition = 0, d_kafkaTopic = ''user-events'',
       d_retryCount = 0, d_errorMessage = None \<rparr>"
  by (simp add: eventOf_def example_defs orElse_def parseInt_examples)

lemma example_validate_noEmail:
  "Event_validate exampleLib
     \<lparr> d_type = Some (JStr ''user.created''), d_userId = None,
       d_data = Some (JObj [(''name'', JStr ''Ann'')]),
       d_source = ''kafka'', d_timestamp = Some 1700000000000, d_processed = False,
       d_kafkaOffset = Num 8, d_kafkaPartition = 0, d_kafkaTopic = ''user-events'',
       d_retryCount = 0, d_errorMessage = None \<rparr> 0 = Inr event_noEmail"
  by (simp add: Event_validate_def event_noEmail_def trim_examples
        Event_types_def Event_sources_def)

lemma example_process_noEmail:
  "processEvent exampleLib json_noEmail ''user-events'' noEmailStore
     = Inl (ValidationError ''Path `email` is required.'')"
  by (simp add: user_defs json_noEmail_def noEmailStore_def)







subsection \<open>What a delivery leaves on its Event\<close>

text \<open>
  No successful delivery marks its Event. When the body parses, the Event passes
  validation and the handler returns normally, \<^verbatim>\<open>handleMessage\<close> returns the handler's
  store, in which the Events are the former ones followed by the new one, with source
  \<^verbatim>\<open>kafka\<close>, \<^verbatim>\<open>retryCount = 0\<close> and \<^verbatim>\<open>processed\<close> still false: the consumer has no
  update of a stored Event.
\<close>

theorem handler_success_leaves_unprocessed:
  assumes "m_value (p_message p) = Some body" and "body \<noteq> []"
    and "JSON_parse L body = Inr eventData"
    and "eventOf L p eventData = Inr d"
    and "Event_validate L d (nextId st) = Inr ev"
    and "processEvent L eventData (p_topic p)
           (st\<lparr>events := events st @ [ev], nextId := Suc (nextId st)\<rparr>) = Inr st2"
  shows "handleMessage L p st = Inr st2 \<and> events st2 = events st @ [ev] \<and>
         esource ev = ''kafka'' \<and> processed ev = False \<and> retryCount ev = 0"
proof -
  have "handleMessage L p st = Inr st2"
    using assms by (simp add: handleMessage_def storeEvent_valid)
  moreover have "events st2 = events st @ [ev]"
    using processEvent_events [OF assms(6)] by simp
  moreover have "esource ev = ''kafka'' \<and> processed ev = False \<and> retryCount ev = 0"
    using eventOf_fields [OF assms(4)] Event_validate_fields [OF assms(5)] by simp
  ultimately show ?thesis by simp
qed

theorem handler_success_leaves_unprocessed_witness:
  "JSON_parse exampleLib body_userCreated = Inr json_userCreated \<and>
   processEvent exampleLib json_userCreated ''user-events''
     \<lparr> events = [event_userCreated], users = [], nextId = 1 \<rparr> = Inr annStore \<and>
   handleMessage exampleLib (delivery (Some body_userCreated) ''7'') emptyStore = Inr annStore \<and>
   events annStore = [event_userCreated] \<and>
   esource event_userCreated = ''kafka'' \<and> processed event_userCreated = False \<and>
   retryCount event_userCreated = 0"
  using handler_success_leaves_unprocessed [of "delivery (Some body_userCreated) ''7''"
          body_userCreated exampleLib json_userCreated _ emptyStore event_userCreated annStore]
        example_eventOf_userCreated [of "Some body_userCreated"]
        example_validate_userCreated example_process_userCreated
  by (simp add: delivery_def emptyStore_def exampleLib_def exampleParse_def
        body_userCreated_def quoted_def)

text \<open>
  C1, at the \<^verbatim>\<open>user.created\<close> message for \<^verbatim>\<open>a@x.com\<close> on \<^verbatim>\<open>user-events\<close>: the body
  parses, the handler creates the User without throwing, and the one stored Event has
  source \<^verbatim>\<open>kafka\<close> and \<^verbatim>\<open>retryCount = 0\<close> but \<^verbatim>\<open>processed = false\<close>, where the claim
  (and the Event document shown in the repository's API documentation) has
  \<^verbatim>\<open>processed = true\<close>.
\<close>

theorem processed_stays_false:
  "JSON_parse exampleLib body_userCreated = Inr json_userCreated \<and>
   handleMessage exampleLib (delivery (Some body_userCreated) ''7'') emptyStore =
     Inr \<lparr> events = [event_userCreated], users = [user_ann], nextId = 2 \<rparr> \<and>
   map esource [event_userCreated] = [''kafka''] \<and>
   map retryCount [event_userCreated] = [0] \<and>
   map processed [event_userCreated] = [False]"
  by (simp add: handleMessage_def storeEvent_def Event_save_def Event_validate_def eventOf_def
        orElse_def example_defs parseInt_examples Event_types_def Event_sources_def user_defs
        event_userCreated_def user_ann_def)

text \<open>
  C2, as the code has it. When the body parses, the Event passes validation and the
  handler throws, \<^verbatim>\<open>handleMessage\<close> still returns normally and the Event stored for the
  message is in the store exactly as it was written: \<^verbatim>\<open>processed = false\<close>,
  \<^verbatim>\<open>retryCount = 0\<close>, no \<^verbatim>\<open>errorMessage\<close>.
\<close>

theorem handler_failure_keeps_event:
  assumes "m_value (p_message p) = Some body" and "body \<noteq> []"
    and "JSON_parse L body = Inr eventData"
    and "eventOf L p eventData = Inr d"
    and "Event_validate L d (nextId st) = Inr ev"
    and "processEvent L eventData (p_topic p)
           (st\<lparr>events := events st @ [ev], nextId := Suc (nextId st)\<rparr>) = Inl err"
  shows "\<exists>st'. handleMessage L p st = Inr st' \<and> ev \<in> set (events st') \<and>
           processed ev = False \<and> retryCount ev = 0 \<and> errorMessage ev = None"
proof -
  have "handleMessage L p st = Inr (st\<lparr>events := events st @ [ev], nextId := Suc (nextId st)\<rparr>)"
    using assms(6) by (simp add: handleMessage_valid [OF assms(1-5)] storeFailedEvent_unchanged)
  moreover have "processed ev = False \<and> retryCount ev = 0 \<and> errorMessage ev = None"
    using eventOf_fields [OF assms(4)] Event_validate_fields [OF assms(5)] by simp
  ultimately show ?thesis by simp
qed

theorem handler_failure_keeps_event_witness:
  "JSON_parse exampleLib body_noEmail = Inr json_noEmail \<and>
   processEvent exampleLib json_noEmail ''user-events'' noEmailStore
     = Inl (ValidationError ''Path `email` is required.'') \<and>
   (\<exists>st'. handleMessage exampleLib (delivery (Some body_noEmail) ''8'') emptyStore = Inr st' \<and>
          event_noEmail \<in> set (events st')) \<and>
   processed event_noEmail = False \<and> retryCount event_noEmail = 0 \<and>
   errorMessage event_noEmail = None"
  using handler_failure_keeps_event [of "delivery (Some body_noEmail) ''8''"
          body_noEmail exampleLib json_noEmail _ emptyStore event_noEmail
          "ValidationError ''Path `email` is required.''"]
        example_eventOf_noEmail [of "Some body_noEmail"]
        example_validate_noEmail example_process_noEmail
  by (auto simp: delivery_def emptyStore_def exampleLib_def exampleParse_def
        body_userCreated_def body_noEmail_def quoted_def noEmailStore_def)

text \<open>
  C2 as stated fails: the \<^verbatim>\<open>user.created\<close> message without an email parses, its
  handler throws a validation error, and afterwards the store holds the one Event of the
  message with \<^verbatim>\<open>retryCount = 0\<close> and no \<^verbatim>\<open>errorMessage\<close>.
\<close>

theorem failure_not_recorded_on_event:
  "processEvent exampleLib json_noEmail ''user-events'' noEmailStore
     = Inl (ValidationError ''Path `email` is required.'') \<and>
   handleMessage exampleLib (delivery (Some body_noEmail) ''8'') emptyStore = Inr noEmailStore \<and>
   map retryCount (events noEmailStore) = [0] \<and>
   map errorMessage (events noEmailStore) = [None]"
  by (simp add: handleMessage_def storeFailedEvent_unchanged storeEvent_def Event_save_def
        Event_validate_def eventOf_def orElse_def example_defs parseInt_examples Event_types_def
        Event_sources_def user_defs event_noEmail_def noEmailStore_def)


subsection \<open>Creating a User twice\<close>














section \<open>Properties of the retry endpoint\<close>

subsection \<open>Which Events are selected\<close>

lemma set_limitTo: "set (limitTo n xs) \<subseteq> set xs"
  by (auto simp: limitTo_def dest: in_set_takeD)

lemma length_limitTo: "0 < n \<Longrightarrow> int (length (limitTo n xs)) \<le> n"
  by (simp add: limitTo_def)

lemma sorted_limitTo: "sorted (map f xs) \<Longrightarrow> sorted (map f (limitTo n xs))"
  by (simp add: limitTo_def take_map [symmetric])

lemma set_findFailed:
  "set (findFailed n evs) \<subseteq> {e \<in> set evs. \<not> processed e \<and> retryCount e < 3}"
  using set_limitTo [of n "sort_key etimestamp (filter (\<lambda>e. \<not> processed e \<and> retryCount e < 3) evs)"]
  by (auto simp: findFailed_def)

lemma sorted_findFailed: "sorted (map etimestamp (findFailed n evs))"
  by (simp add: findFailed_def sorted_limitTo)

lemma fold_retryOne_count: "fst (fold retryOne sel (c, st)) = c + length sel"
  by (induction sel arbitrary: c st) (auto simp: retryOne_def)

lemma fold_retryOne_users: "users (snd (fold retryOne sel (c, st))) = users st"
  by (induction sel arbitrary: c st) (auto simp: retryOne_def)

lemma retry_count:
  assumes "(case limit of None \<Rightarrow> Num 10 | Some s \<Rightarrow> parseInt s) = Num n"
  shows "retriedCount (fst (retryFailedEvents limit st)) = Some (length (findFailed n (events st)))"
  using assms fold_retryOne_count [of "findFailed n (events st)" 0 st]
  by (auto simp: retryFailedEvents_def split: prod.splits)

lemma example_findFailed_all:
  "map eid (filter (\<lambda>e. \<not> processed e \<and> retryCount e < 3) (events retryStore)) = [0, 3, 4]"
  by (simp add: retryStore_def exampleEvent_def)

lemma example_findFailed_sorted:
  "sort_key etimestamp (filter (\<lambda>e. \<not> processed e \<and> retryCount e < 3) (events retryStore))
     = [exampleEvent 3 10 False 0, exampleEvent 4 20 False 1, exampleEvent 0 30 False 2]"
  by (simp add: retryStore_def exampleEvent_def)

text \<open>
  What the query selects. Whatever the bound, only Events with \<^verbatim>\<open>processed = false\<close> and
  \<^verbatim>\<open>retryCount < 3\<close>, in ascending order of timestamp, and never one with
  \<^verbatim>\<open>retryCount = 3\<close>; for a bound of at least 1 the selection is the first that many of
  the eligible Events, oldest first, so at most that many.
\<close>

theorem findFailed_selection:
  "set (findFailed n evs) \<subseteq> {e \<in> set evs. \<not> processed e \<and> retryCount e < 3} \<and>
   sorted (map etimestamp (findFailed n evs)) \<and>
   (0 < n \<longrightarrow> int (length (findFailed n evs)) \<le> n) \<and>
   (0 < n \<longrightarrow> findFailed n evs =
      take (nat n) (sort_key etimestamp (filter (\<lambda>e. \<not> processed e \<and> retryCount e < 3) evs))) \<and>
   (\<forall>e. retryCount e = 3 \<longrightarrow> e \<notin> set (findFailed n evs))"
proof -
  have "\<forall>e. retryCount e = 3 \<longrightarrow> e \<notin> set (findFailed n evs)"
    using set_findFailed [of n evs] by auto
  moreover have "0 < n \<longrightarrow> int (length (findFailed n evs)) \<le> n"
    by (simp add: findFailed_def length_limitTo)
  moreover have "0 < n \<longrightarrow> findFailed n evs =
      take (nat n) (sort_key etimestamp (filter (\<lambda>e. \<not> processed e \<and> retryCount e < 3) evs))"
    by (simp add: findFailed_def limitTo_def)
  ultimately show ?thesis
    using set_findFailed [of n evs] sorted_findFailed [of n evs] by blast
qed

theorem findFailed_selection_witness:
  "(0::int) < 2 \<and>
   findFailed 2 (events retryStore) = [exampleEvent 3 10 False 0, exampleEvent 4 20 False 1] \<and>
   int (length (findFailed 2 (events retryStore))) \<le> 2 \<and>
   sorted (map etimestamp (findFailed 2 (events retryStore))) \<and>
   retryCount (exampleEvent 1 5 False 3) = 3 \<and>
   exampleEvent 1 5 False 3 \<in> set (events retryStore) \<and>
   exampleEvent 1 5 False 3 \<notin> set (findFailed 2 (events retryStore))"
  using findFailed_selection [of 2 "events retryStore"] example_findFailed_sorted
  by (auto simp: findFailed_def limitTo_def exampleEvent_def retryStore_def)

text \<open>
  C4, at the input \<^verbatim>\<open>limit=0\<close> on the example store: the bound reaches the cursor
  unchecked, the cursor takes 0 as "no limit", and all three eligible Events are selected
  and retried, where the claim has at most \<^verbatim>\<open>maxBatch\<close>, here none. (The validator
  \<^verbatim>\<open>validateRetryParams\<close>, which admits only 1 to 50, is not attached to the route.)
\<close>

theorem limit_zero_selects_all:
  "parseInt ''0'' = Num 0 \<and>
   map eid (findFailed 0 (events retryStore)) = [3, 4, 0] \<and>
   retriedCount (fst (retryFailedEvents (Some ''0'') retryStore)) = Some 3"
proof -
  have p: "parseInt ''0'' = Num 0"
    by (simp add: parseInt_examples)
  have f: "findFailed 0 (events retryStore)
             = [exampleEvent 3 10 False 0, exampleEvent 4 20 False 1, exampleEvent 0 30 False 2]"
    by (simp add: findFailed_def limitTo_def example_findFailed_sorted)
  have "retriedCount (fst (retryFailedEvents (Some ''0'') retryStore)) = Some 3"
    using retry_count [of "Some ''0''" 0 retryStore] p f by simp
  with p f show ?thesis by (simp add: exampleEvent_def)
qed

subsection \<open>What a retry does to the selected Events\<close>

lemma touch_eq: "markProcessed (incRetry e) = touch e"
  by (simp add: markProcessed_def incRetry_def touch_def)

lemma update_distinct:
  "distinct (map eid es) \<Longrightarrow>
   Event_findByIdAndUpdate i f es = map (\<lambda>e. if eid e = i then f e else e) es"
proof (induction es)
  case Nil
  then show ?case by simp
next
  case (Cons e es)
  show ?case
  proof (cases "eid e = i")
    case True
    with Cons.prems have "\<forall>x \<in> set es. eid x \<noteq> i" by (auto simp: image_iff)
    then have "map (\<lambda>e. if eid e = i then f e else e) es = es"
      by (simp add: map_idI)
    with True show ?thesis by simp
  next
    case False
    with Cons show ?thesis by simp
  qed
qed

lemma retryOne_distinct:
  assumes "distinct (map eid (events st))"
  shows "retryOne e (c, st) =
           (c + 1, st\<lparr>events := map (\<lambda>x. if eid x = eid e then touch x else x) (events st)\<rparr>)"
proof -
  let ?es1 = "map (\<lambda>x. if eid x = eid e then incRetry x else x) (events st)"
  have s1: "Event_findByIdAndUpdate (eid e) incRetry (events st) = ?es1"
    using assms by (rule update_distinct)
  have e1: "map eid ?es1 = map eid (events st)"
    by (simp add: incRetry_def o_def if_distrib cong: if_cong)
  have d1: "distinct (map eid ?es1)"
    unfolding e1 by (rule assms)
  have s2: "Event_findByIdAndUpdate (eid e) markProcessed ?es1
              = map (\<lambda>x. if eid x = eid e then markProcessed x else x) ?es1"
    using d1 by (rule update_distinct)
  have "map (\<lambda>x. if eid x = eid e then markProcessed x else x) ?es1
          = map (\<lambda>x. if eid x = eid e then touch x else x) (events st)"
    by (simp add: o_def touch_eq [symmetric] incRetry_def)
  with s1 s2 show ?thesis by (simp add: retryOne_def)
qed

lemma fold_retryOne:
  "distinct (map eid (events st)) \<Longrightarrow> distinct (map eid sel) \<Longrightarrow>
   fold retryOne sel (c, st) =
     (c + length sel,
      st\<lparr>events := map (\<lambda>x. if eid x \<in> eid ` set sel then touch x else x) (events st)\<rparr>)"
proof (induction sel arbitrary: c st)
  case Nil
  then show ?case by simp
next
  case (Cons e sel)
  let ?st1 = "st\<lparr>events := map (\<lambda>x. if eid x = eid e then touch x else x) (events st)\<rparr>"
  have d1: "distinct (map eid (events ?st1))"
    using Cons.prems(1) by (simp add: o_def touch_def if_distrib cong: if_cong)
  have notin: "eid e \<notin> eid ` set sel"
    using Cons.prems(2) by auto
  have "fold retryOne (e # sel) (c, st) = fold retryOne sel (c + 1, ?st1)"
    using Cons.prems(1) by (simp add: retryOne_distinct)
  also have "\<dots> = (c + 1 + length sel,
      ?st1\<lparr>events := map (\<lambda>x. if eid x \<in> eid ` set sel then touch x else x) (events ?st1)\<rparr>)"
    using Cons.IH [OF d1] Cons.prems(2) by simp
  also have "map (\<lambda>x. if eid x \<in> eid ` set sel then touch x else x) (events ?st1)
      = map (\<lambda>x. if eid x \<in> eid ` set (e # sel) then touch x else x) (events st)"
    using notin by (auto simp: touch_def)
  finally show ?case by simp
qed

lemma distinct_map_sort_key:
  "distinct (map f xs) \<Longrightarrow> distinct (map f (sort_key k xs))"
  by (simp add: distinct_map)

lemma distinct_map_limitTo:
  "distinct (map f xs) \<Longrightarrow> distinct (map f (limitTo n xs))"
  by (simp add: limitTo_def take_map [symmetric])

lemma distinct_findFailed:
  "distinct (map eid evs) \<Longrightarrow> distinct (map eid (findFailed n evs))"
  unfolding findFailed_def
  by (intro distinct_map_limitTo distinct_map_sort_key distinct_map_filter)

text \<open>
  A retry only rewrites the selected Events. In a store whose Events have distinct
  identifiers, a retry with a numeric bound answers with the number of selected Events,
  leaves the Users untouched (no handler runs), and changes exactly the selected Events:
  each gets its \<^verbatim>\<open>retryCount\<close> incremented, its \<^verbatim>\<open>errorMessage\<close> cleared and
  \<^verbatim>\<open>processed = true\<close>.
\<close>

theorem retry_marks_selected:
  assumes lim: "(case limit of None \<Rightarrow> Num 10 | Some s \<Rightarrow> parseInt s) = Num n"
    and ids: "distinct (map eid (events st))"
  shows "retriedCount (fst (retryFailedEvents limit st)) = Some (length (findFailed n (events st))) \<and>
         users (snd (retryFailedEvents limit st)) = users st \<and>
         events (snd (retryFailedEvents limit st)) =
           map (\<lambda>e. if e \<in> set (findFailed n (events st))
                     then e\<lparr>retryCount := retryCount e + 1, errorMessage := None, processed := True\<rparr>
                     else e) (events st)"
proof -
  let ?sel = "findFailed n (events st)"
  have inj: "inj_on eid (set (events st))"
    using ids by (simp add: distinct_map)
  have sub: "set ?sel \<subseteq> set (events st)"
    using set_findFailed [of n "events st"] by auto
  have mem: "\<And>x. x \<in> set (events st) \<Longrightarrow> (eid x \<in> eid ` set ?sel) = (x \<in> set ?sel)"
    using inj sub by (auto simp: inj_on_def)
  have ev: "events (snd (retryFailedEvents limit st)) =
              map (\<lambda>x. if eid x \<in> eid ` set ?sel then touch x else x) (events st)"
  proof (cases "?sel = []")
    case True
    then show ?thesis using lim by (simp add: retryFailedEvents_def)
  next
    case False
    then show ?thesis
      using lim fold_retryOne [OF ids distinct_findFailed [OF ids], of n 0]
      by (simp add: retryFailedEvents_def)
  qed
  have "events (snd (retryFailedEvents limit st)) =
          map (\<lambda>e. if e \<in> set ?sel then touch e else e) (events st)"
    unfolding ev by (rule map_cong) (simp_all add: mem)
  moreover have "users (snd (retryFailedEvents limit st)) = users st"
    using lim fold_retryOne_users [of ?sel 0 st]
    by (auto simp: retryFailedEvents_def split: prod.splits)
  ultimately show ?thesis
    using retry_count [OF lim] by (simp add: touch_def)
qed

theorem retry_marks_selected_witness:
  "parseInt ''2'' = Num 2 \<and> distinct (map eid (events retryStore)) \<and>
   retriedCount (fst (retryFailedEvents (Some ''2'') retryStore)) = Some 2 \<and>
   users (snd (retryFailedEvents (Some ''2'') retryStore)) = [] \<and>
   map (\<lambda>e. (eid e, processed e, retryCount e)) (events (snd (retryFailedEvents (Some ''2'') retryStore)))
     = [(0, False, 2), (1, False, 3), (2, True, 0), (3, True, 1), (4, True, 2)]"
proof -
  have p: "parseInt ''2'' = Num 2"
    by (simp add: parseInt_examples)
  have f: "findFailed 2 (events retryStore) = [exampleEvent 3 10 False 0, exampleEvent 4 20 False 1]"
    by (simp add: findFailed_def limitTo_def example_findFailed_sorted)
  have d: "distinct (map eid (events retryStore))"
    by (simp add: retryStore_def exampleEvent_def)
  show ?thesis
    using retry_marks_selected [of "Some ''2''" 2 retryStore] p d
    by (simp add: f) (simp add: retryStore_def exampleEvent_def)
qed

text \<open>
  C5, at the store left by the \<^verbatim>\<open>user.created\<close> message without an email: the
  handler of the ingestion pipeline throws on that event, yet a retry increments its
  \<^verbatim>\<open>retryCount\<close>, marks it processed and counts it, and no handler has run (the claim
  has the handler re-invoked and \<^verbatim>\<open>processed = true\<close> only when it succeeds).
\<close>

theorem retry_runs_no_handler:
  "processEvent exampleLib json_noEmail ''user-events'' noEmailStore
     = Inl (ValidationError ''Path `email` is required.'') \<and>
   retryFailedEvents None noEmailStore =
     (\<lparr> status = 200, success = True, r_message = ''1 events retried successfully'',
         retriedCount = Some 1 \<rparr>,
      \<lparr> events = [event_noEmail\<lparr>retryCount := 1, processed := True\<rparr>], users = [], nextId = 1 \<rparr>)"
  using example_process_noEmail
  by (simp add: retryFailedEvents_def findFailed_def limitTo_def retryOne_def incRetry_def
        markProcessed_def noEmailStore_def event_noEmail_def showNat.simps digitChar_def)

subsection \<open>The bound is not capped\<close>

lemma retry_default_limit:
  "retriedCount (fst (retryFailedEvents None st)) = Some (length (findFailed 10 (events st)))"
  by (rule retry_count) simp

text \<open>
  C9, at the input \<^verbatim>\<open>limit=100\<close> on a store with 51 unprocessed Events: all 51 are
  retried. (The validator \<^verbatim>\<open>validateRetryParams\<close>, with \<^verbatim>\<open>max: 50\<close>, is defined in the
  validation middleware but is not attached to the route, and the controller does not
  look at validation results.)
\<close>

theorem limit_is_not_capped:
  "parseInt ''100'' = Num 100 \<and>
   retriedCount (fst (retryFailedEvents (Some ''100'') (backlog 51))) = Some 51"
proof -
  have p: "parseInt ''100'' = Num 100"
    by (simp add: parseInt_examples)
  have "filter (\<lambda>e. \<not> processed e \<and> retryCount e < 3) (events (backlog 51)) = events (backlog 51)"
    by (simp add: backlog_def exampleEvent_def filter_map o_def)
  then have "length (findFailed 100 (events (backlog 51))) = 51"
    by (simp add: findFailed_def limitTo_def) (simp add: backlog_def)
  with p retry_count [of "Some ''100''" 100 "backlog 51"] show ?thesis by simp
qed

section \<open>Properties of the producer\<close>

lemma sendMessage_key:
  assumes "sendMessage isConnected stringify now send topic msg key = Inr r"
    and "get (Some msg) ''userId'' = Inr userId"
  shows "r_key r = orElse (map_option JStr key) (orElse userId (JStr ''default''))"
  using assms
  by (auto simp: sendMessage_def split: if_splits sum.splits list.splits)

lemma orElse_truthy: "truthy (Some v) \<Longrightarrow> orElse (Some v) b = v"
  by (simp add: orElse_def)

lemma orElse_falsy: "\<not> truthy a \<Longrightarrow> orElse a b = b"
  by (cases a) (simp_all add: orElse_def)

text \<open>
  C8, as the code has it. For a message published with no key, or with the empty string
  as key, the record's key is the message's \<^verbatim>\<open>userId\<close> when that is truthy (present, not
  null, not empty), and the string \<^verbatim>\<open>default\<close> otherwise.
\<close>

theorem sendMessage_default_key:
  assumes "sendMessage isConnected stringify now send topic msg key = Inr r"
    and "key = None \<or> key = Some []"
    and "get (Some msg) ''userId'' = Inr userId"
  shows "(truthy userId \<longrightarrow> Some (r_key r) = userId) \<and>
         (\<not> truthy userId \<longrightarrow> r_key r = JStr ''default'')"
proof -
  have nokey: "\<not> truthy (map_option JStr key)"
    using assms(2) by auto
  have k: "r_key r = orElse userId (JStr ''default'')"
    using sendMessage_key [OF assms(1) assms(3)] nokey by (simp add: orElse_falsy)
  show ?thesis
  proof (cases "truthy userId")
    case True
    then obtain v where "userId = Some v" by (cases userId) auto
    with True k show ?thesis by (simp add: orElse_truthy)
  next
    case False
    with k show ?thesis by (simp add: orElse_falsy)
  qed
qed

theorem sendMessage_default_key_witness:
  "get (Some json_userLogin) ''userId'' = Inr (Some (JStr ''u1'')) \<and>
   sendMessage True exampleStringify 1700000000000 exampleSend ''user-events'' json_userLogin None =
     Inr \<lparr> r_topic = ''user-events'', r_key = JStr ''u1'', r_value = body_userLogin,
           r_timestamp = ''1700000000000'',
           r_headers = [(''content-type'', JStr ''application/json''), (''source'', JStr ''api''),
                        (''message-type'', JStr ''user.login'')] \<rparr> \<and>
   Some (r_key \<lparr> r_topic = ''user-events'', r_key = JStr ''u1'', r_value = body_userLogin,
           r_timestamp = ''1700000000000'',
           r_headers = [(''content-type'', JStr ''application/json''), (''source'', JStr ''api''),
                        (''message-type'', JStr ''user.login'')] \<rparr>) = Some (JStr ''u1'')"
proof -
  have ts: "showNat 1700000000000 = ''1700000000000''"
    by (simp add: showNat.simps digitChar_def)
  have sent: "sendMessage True exampleStringify 1700000000000 exampleSend ''user-events'' json_userLogin None =
     Inr \<lparr> r_topic = ''user-events'', r_key = JStr ''u1'', r_value = body_userLogin,
           r_timestamp = ''1700000000000'',
           r_headers = [(''content-type'', JStr ''application/json''), (''source'', JStr ''api''),
                        (''message-type'', JStr ''user.login'')] \<rparr>"
    by (simp add: sendMessage_def json_userLogin_def json_systemHealth_def exampleStringify_def
          exampleSend_def orElse_def ts)
  show ?thesis
    using sendMessage_default_key [OF sent, of "Some (JStr ''u1'')"] sent
    by (simp add: json_userLogin_def)
qed

text \<open>
  C8 as stated fails on a message without \<^verbatim>\<open>userId\<close>, such as the ones
  \<^verbatim>\<open>sendSystemEvent\<close> publishes with no key: the record's key is \<^verbatim>\<open>default\<close>.
\<close>

theorem key_without_userId_is_default:
  "get (Some json_systemHealth) ''userId'' = Inr None \<and>
   sendMessage True exampleStringify 1700000000000 exampleSend ''system-events'' json_systemHealth None =
     Inr \<lparr> r_topic = ''system-events'', r_key = JStr ''default'', r_value = body_systemHealth,
           r_timestamp = ''1700000000000'',
           r_headers = [(''content-type'', JStr ''application/json''), (''source'', JStr ''api''),
                        (''message-type'', JStr ''system.health'')] \<rparr>"
proof -
  have ts: "showNat 1700000000000 = ''1700000000000''"
    by (simp add: showNat.simps digitChar_def)
  show ?thesis
    by (simp add: sendMessage_def json_systemHealth_def exampleStringify_def exampleSend_def
          orElse_def ts)
qed

end
